theory Spec2Isabelle
  imports Complex_Main
begin

section \<open>Python values\<close>

text \<open>
  A Python \<open>str\<close> is a sequence of Unicode code points, and \<open>len\<close> counts code points:
  the model is a list of naturals. \<open>ascii\<close> reads an ASCII literal; code points beyond
  ASCII (the pictographs in the fixed messages of \<open>ui.py\<close>) are written as numbers.
\<close>

type_synonym pystr = "nat list"

definition ascii :: "string \<Rightarrow> pystr" where
  "ascii s = map of_char s"

text \<open>
  \<open>str.strip()\<close> without an argument removes leading and trailing white space, which
  CPython decides per code point (\<open>_PyUnicode_IsWhitespace\<close>): U+0009..U+000D,
  U+001C..U+0020, U+0085, U+00A0, U+1680, U+2000..U+200A, U+2028, U+2029, U+202F, U+205F
  and U+3000.
\<close>

definition py_isspace :: "nat \<Rightarrow> bool" where
  "py_isspace c =
     ((9 \<le> c \<and> c \<le> 13) \<or> (28 \<le> c \<and> c \<le> 32) \<or> c = 133 \<or> c = 160 \<or> c = 5760 \<or>
      (8192 \<le> c \<and> c \<le> 8202) \<or> c = 8232 \<or> c = 8233 \<or> c = 8239 \<or> c = 8287 \<or> c = 12288)"

definition py_strip :: "pystr \<Rightarrow> pystr" where
  "py_strip s = rev (dropWhile py_isspace (rev (dropWhile py_isspace s)))"

text \<open>
  \<open>str.lower()\<close> maps \<open>A\<close>..\<open>Z\<close> to \<open>a\<close>..\<open>z\<close> and leaves every other ASCII code point
  alone. What it does beyond ASCII is decided by the Unicode tables of the interpreter, not
  by this repository: the table is the parameter \<open>unicode_lower\<close>, which gives the code
  points a non-ASCII code point is replaced with.
\<close>

definition py_lower :: "(nat \<Rightarrow> pystr) \<Rightarrow> pystr \<Rightarrow> pystr" where
  "py_lower unicode_lower s =
     concat (map (\<lambda>c. if 65 \<le> c \<and> c \<le> 90 then [c + 32]
                        else if c < 128 then [c] else unicode_lower c) s)"

text \<open>\<open>needle in hay\<close> for strings: \<open>needle\<close> occurs as a contiguous run of \<open>hay\<close>.\<close>

fun py_contains :: "pystr \<Rightarrow> pystr \<Rightarrow> bool" where
  "py_contains needle [] = (needle = [])"
| "py_contains needle (c # cs) =
     (take (length needle) (c # cs) = needle \<or> py_contains needle cs)"

text \<open>\<open>str(n)\<close> for a non-negative \<open>int\<close>: its decimal digits.\<close>

fun py_str_nat :: "nat \<Rightarrow> pystr" where
  "py_str_nat n = (if n < 10 then [48 + n] else py_str_nat (n div 10) @ [48 + n mod 10])"

section \<open>Messages and the client channel\<close>

text \<open>
  A transcript entry is the dictionary \<open>{"role", "content", "timestamp"}\<close>; the role is
  one of the two strings \<open>"user"\<close> and \<open>"assistant"\<close>, the time stamp the ISO rendering
  of \<open>datetime.now()\<close>, which the environment supplies.
\<close>

datatype role = User | Assistant

record message =
  role :: role
  content :: pystr
  timestamp :: pystr

text \<open>
  Every \<open>emit\<close> is recorded in a log, in the order of the calls. The last argument of
  each event is the room it is sent to: \<open>request.sid\<close> for a handler's plain \<open>emit\<close>, the
  \<open>room\<close> argument for \<open>socketio.emit\<close>.
\<close>

datatype emitted =
    Agent_response message pystr
  | Message_received message pystr
  | Agent_typing bool pystr
  | Agent_streaming_start pystr pystr
  | Agent_streaming pystr pystr pystr
  | Agent_streaming_end pystr
  | Generation_stopped pystr pystr
  | Generation_stop_acknowledged pystr pystr
  | Generation_stop_error pystr pystr
  | Conversation_cleared "message list" pystr

section \<open>StreamingOutputCapture\<close>

text \<open>
  The capture stands in for \<open>sys.stdout\<close> while a generation runs. The original stream
  is modelled by the calls it receives. A \<open>threading.Event\<close> is an object with identity:
  the capture holds the identity of its stop event (or \<open>None\<close>), and the flags of all
  events live in a store \<open>flags\<close> from identities to booleans.
\<close>

datatype stream_call = Stream_write pystr | Stream_flush

record capture =
  room_id :: pystr
  original_stdout :: "stream_call list"
  accumulated_output :: pystr
  last_emit_time :: real
  emit_interval :: real
  stop_event :: "nat option"

text \<open>
  \<open>__init__\<close>: \<open>created\<close> is the reading of \<open>time.time()\<close>. The interval is the float
  literal \<open>0.1\<close>; clock readings are modelled as real numbers.
\<close>

definition new_capture :: "pystr \<Rightarrow> nat option \<Rightarrow> real \<Rightarrow> capture" where
  "new_capture room ev created =
     \<lparr>room_id = room, original_stdout = [], accumulated_output = [],
      last_emit_time = created, emit_interval = 1 / 10, stop_event = ev\<rparr>"

text \<open>
  \<open>not self.stop_event or not self.stop_event.is_set()\<close>: an \<open>Event\<close> object is always
  truthy, so the test fails exactly when there is an event and its flag is set.
\<close>

definition stop_signalled :: "(nat \<Rightarrow> bool) \<Rightarrow> capture \<Rightarrow> bool" where
  "stop_signalled flags cap = (case stop_event cap of None \<Rightarrow> False | Some e \<Rightarrow> flags e)"

text \<open>
  \<open>emit_partial_response\<close>: the emit and the clearing of the buffer are both inside the
  \<open>if\<close>. \<open>ts\<close> is the time stamp of the event.
\<close>

definition emit_partial_response ::
  "(nat \<Rightarrow> bool) \<Rightarrow> pystr \<Rightarrow> capture \<Rightarrow> capture \<times> emitted list" where
  "emit_partial_response flags ts cap =
     (if py_strip (accumulated_output cap) \<noteq> [] \<and> \<not> stop_signalled flags cap
      then (cap\<lparr>accumulated_output := []\<rparr>,
            [Agent_streaming (accumulated_output cap) ts (room_id cap)])
      else (cap, []))"

text \<open>
  \<open>write\<close>: returns \<open>len(text)\<close>, the capture and the events emitted. \<open>current_time\<close>
  is the reading of \<open>time.time()\<close> inside the call.
\<close>

definition capture_write ::
  "(nat \<Rightarrow> bool) \<Rightarrow> real \<Rightarrow> pystr \<Rightarrow> pystr \<Rightarrow> capture \<Rightarrow> nat \<times> capture \<times> emitted list" where
  "capture_write flags current_time ts txt cap =
     (let (cap1, evs) =
        (if py_strip txt \<noteq> [] then
           (let c = cap\<lparr>accumulated_output := accumulated_output cap @ txt\<rparr> in
            if current_time - last_emit_time c \<ge> emit_interval c
               \<or> length (accumulated_output c) > 100
            then (let (c', es) = emit_partial_response flags ts c
                  in (c'\<lparr>last_emit_time := current_time\<rparr>, es))
            else (c, []))
         else (cap, []))
      in (length txt,
          cap1\<lparr>original_stdout := original_stdout cap1 @ [Stream_write txt]\<rparr>,
          evs))"

text \<open>\<open>flush\<close>: emits what is left, then flushes the original stream.\<close>

definition capture_flush ::
  "(nat \<Rightarrow> bool) \<Rightarrow> pystr \<Rightarrow> capture \<Rightarrow> capture \<times> emitted list" where
  "capture_flush flags ts cap =
     (let (cap1, evs) =
        (if py_strip (accumulated_output cap) \<noteq> []
         then emit_partial_response flags ts cap else (cap, []))
      in (cap1\<lparr>original_stdout := original_stdout cap1 @ [Stream_flush]\<rparr>, evs))"

section \<open>The fixed texts of \<open>ui.py\<close>\<close>

definition goodbye_content :: pystr where
  "goodbye_content =
     [127981] @ ascii '' Thank you for using the SFC Wizard!'' @ [10] @
     ascii ''May your industrial data flow smoothly to the cloud! '' @ [9729, 65039]"

definition not_ready_content :: pystr where
  "not_ready_content =
     [10060] @ ascii '' Agent is not ready yet. Please refresh the page and try again.''"

definition stopped_by_user :: pystr where
  "stopped_by_user = ascii ''Generation stopped by user.''"

definition stopped_before_starting :: pystr where
  "stopped_before_starting = ascii ''Generation was stopped before starting.''"

definition was_stopped_by_user :: pystr where
  "was_stopped_by_user = ascii ''Generation was stopped by user.''"

definition no_response_generated :: pystr where
  "no_response_generated = ascii ''No response generated.''"

definition no_active_generation :: pystr where
  "no_active_generation = ascii ''No active generation to stop.''"

definition timed_out_text :: "nat \<Rightarrow> pystr" where
  "timed_out_text timeout =
     ascii ''Generation timed out after '' @ py_str_nat timeout @ ascii '' seconds.''"

definition stop_requested_notice :: pystr where
  "stop_requested_notice =
     [128721] @ ascii '' Stop requested - suppressing agent output...''"

definition still_running_notice :: pystr where
  "still_running_notice =
     [9888, 65039] @
     ascii '' Agent thread still running in background (output suppressed)''"

definition visualization_notice :: pystr where
  "visualization_notice = ascii ''Ensuring visualization data is properly displayed...''"

definition error_content :: "pystr \<Rightarrow> pystr" where
  "error_content e =
     [10060] @ ascii '' Error processing request: '' @ e @ [10] @
     ascii ''Please try rephrasing your question or check your configuration.''"

definition welcome_message :: pystr where
  "welcome_message =
     [127981] @ ascii '' **AWS SHOP FLOOR CONNECTIVITY (SFC) WIZARD**'' @ [10, 10] @
     ascii ''Specialized assistant for industrial data connectivity to AWS'' @
     [10, 10, 128190] @
     ascii '' **Session Persistence**: Your conversation is automatically saved'' @
     ascii '' and will persist for 5 minutes even if you refresh the page'' @
     ascii '' or close the browser tab.'' @
     [10, 10, 127919] @ ascii '' **I can help you with:**'' @
     [10, 8226] @ ascii '' '' @ [128269] @ ascii '' Debug existing SFC configurations'' @
     [10, 8226] @ ascii '' '' @ [128736, 65039] @
     ascii '' Create new SFC configurations  '' @
     [10, 8226] @ ascii '' '' @ [128190] @ ascii '' Save configurations to JSON files'' @
     [10, 8226] @ ascii '' '' @ [128194] @ ascii '' Load configurations from JSON files'' @
     [10, 8226] @ ascii '' '' @ [9654, 65039] @
     ascii '' Run configurations in local test environments'' @
     [10, 8226] @ ascii '' '' @ [129514] @
     ascii '' Test configurations against environments'' @
     [10, 8226] @ ascii '' '' @ [127959, 65039] @
     ascii '' Define required deployment environments'' @
     [10, 8226] @ ascii '' '' @ [128218] @ ascii '' Explain SFC concepts and components'' @
     [10, 8226] @ ascii '' '' @ [128202] @
     ascii '' Visualize data from configurations with FILE-TARGET'' @
     [10, 8226] @ ascii '' '' @ [128640] @ ascii '' Type '' @ [39] @ ascii ''example'' @
     [39] @ ascii '' to run a sample configuration instantly'' @
     [10, 10, 128203] @ ascii '' **Supported Protocols:**'' @ [10] @
     ascii ''OPCUA | MODBUS | S7 | MQTT | HTTP | and more...'' @
     [10, 10, 9729, 65039] @ ascii '' **Supported AWS Targets:**'' @ [10] @
     ascii ''AWS-S3 | AWS-IOT-CORE | AWS-TIMESTREAM | DEBUG | and more...'' @
     [10, 10] @ ascii ''What would you like to do today?''"

section \<open>The agent call and its worker thread\<close>

text \<open>
  The agent is opaque. Of the object it returns the code reads its truth value, whether it
  has an attribute \<open>content\<close> or \<open>text\<close> (and then \<open>str\<close> of that attribute), and
  \<open>str\<close> of the object itself.
\<close>

record response =
  truthy :: bool
  content_attr :: "pystr option"
  text_attr :: "pystr option"
  str_repr :: pystr

text \<open>A Python \<open>str\<close> seen as such an object: it has neither attribute.\<close>

definition py_str_object :: "pystr \<Rightarrow> response" where
  "py_str_object s =
     \<lparr>truthy = (s \<noteq> []), content_attr = None, text_attr = None, str_repr = s\<rparr>"

text \<open>The \<open>hasattr\<close> chain that turns a response into a string.\<close>

definition format_response :: "response \<Rightarrow> pystr" where
  "format_response r =
     (case content_attr r of
        Some c \<Rightarrow> c
      | None \<Rightarrow> (case text_attr r of Some t \<Rightarrow> t | None \<Rightarrow> str_repr r))"

text \<open>
  What the call \<open>self.agent(message)\<close> does when it ends: it returns, it raises an
  \<open>Exception\<close> (given by \<open>str(e)\<close>), or it raises a \<open>BaseException\<close> that
  \<open>except Exception\<close> does not catch.
\<close>

datatype agent_outcome = Returns response | Raises pystr | Raises_BaseException

record stoppable_agent =
  result :: "response option"
  error :: "pystr option"
  completed :: bool

definition new_stoppable_agent :: stoppable_agent where
  "new_stoppable_agent = \<lparr>result = None, error = None, completed = False\<rparr>"

text \<open>
  \<open>StoppableAgent.run_in_thread\<close> from the end of the agent call on: \<open>stop_is_set\<close> is
  what \<open>self.stop_event.is_set()\<close> gives at that moment. The \<open>finally\<close> sets
  \<open>completed\<close> on every path.
\<close>

definition run_in_thread :: "agent_outcome \<Rightarrow> bool \<Rightarrow> stoppable_agent \<Rightarrow> stoppable_agent" where
  "run_in_thread out stop_is_set sa =
     (case out of
        Returns r \<Rightarrow>
          sa\<lparr>result := Some (if \<not> stop_is_set then r else py_str_object stopped_by_user),
             completed := True\<rparr>
      | Raises e \<Rightarrow>
          (if \<not> stop_is_set then sa\<lparr>error := Some e, completed := True\<rparr>
           else sa\<lparr>result := Some (py_str_object stopped_by_user), completed := True\<rparr>)
      | Raises_BaseException \<Rightarrow> sa\<lparr>completed := True\<rparr>)"

text \<open>
  The tail of \<open>run_with_timeout\<close> (\<open># Return result\<close>): \<open>if self.error\<close> and
  \<open>elif self.result\<close> test truth values, so an empty error text counts as no error.
\<close>

definition return_result :: "stoppable_agent \<Rightarrow> pystr" where
  "return_result sa =
     (let from_result =
        (case result sa of
           Some r \<Rightarrow> if truthy r then format_response r else no_response_generated
         | None \<Rightarrow> no_response_generated)
      in case error sa of
           Some e \<Rightarrow> if e \<noteq> [] then ascii ''Error: '' @ e else from_result
         | None \<Rightarrow> from_result)"

section \<open>The ChatUI object\<close>

text \<open>
  The dictionaries of \<open>ChatUI\<close> are maps. \<open>threading.Event\<close> and \<open>threading.Thread\<close>
  objects are identities drawn from the counter \<open>next_object\<close>; \<open>event_flags\<close> holds the
  flag of every event. \<open>client_log\<close> is the log of emitted events.
\<close>

record chat_ui =
  conversations :: "pystr \<rightharpoonup> message list"
  session_timestamps :: "pystr \<rightharpoonup> pystr"
  active_threads :: "pystr \<rightharpoonup> nat"
  stop_events :: "pystr \<rightharpoonup> nat"
  event_flags :: "nat \<Rightarrow> bool"
  next_object :: nat
  sfc_agent :: "nat option"
  agent_ready :: bool
  client_log :: "emitted list"

text \<open>
  \<open>__init__\<close> and \<open>initialize_agent\<close> (the constructor \<open>SFCWizardAgent()\<close> is taken
  to return).
\<close>

definition new_chat_ui :: chat_ui where
  "new_chat_ui =
     \<lparr>conversations = Map.empty, session_timestamps = Map.empty, active_threads = Map.empty,
      stop_events = Map.empty, event_flags = (\<lambda>e. False), next_object = 0,
      sfc_agent = None, agent_ready = False, client_log = []\<rparr>"

definition initialize_agent :: "chat_ui \<Rightarrow> chat_ui" where
  "initialize_agent u =
     (case sfc_agent u of
        None \<Rightarrow> u\<lparr>sfc_agent := Some (next_object u), next_object := Suc (next_object u),
                   agent_ready := True\<rparr>
      | Some a \<Rightarrow> u)"

definition emit :: "emitted \<Rightarrow> chat_ui \<Rightarrow> chat_ui" where
  "emit e u = u\<lparr>client_log := client_log u @ [e]\<rparr>"

text \<open>
  \<open>session.get("session_id")\<close> followed by \<open>if not session_id\<close>: a missing or empty
  entry of the Flask session is replaced by a fresh \<open>uuid4\<close>, which the environment
  supplies as \<open>uuid\<close>.
\<close>

definition resolve_session :: "pystr option \<Rightarrow> pystr \<Rightarrow> pystr" where
  "resolve_session sess uuid =
     (case sess of Some s \<Rightarrow> if s \<noteq> [] then s else uuid | None \<Rightarrow> uuid)"

text \<open>
  \<open>handle_stop_generation\<close>: \<open>sess\<close> is the session id in the caller's Flask session,
  \<open>rid\<close> is \<open>request.sid\<close>.
\<close>

definition handle_stop_generation :: "pystr option \<Rightarrow> pystr \<Rightarrow> chat_ui \<Rightarrow> chat_ui" where
  "handle_stop_generation sess rid u =
     (case sess of
        None \<Rightarrow> u
      | Some session_id \<Rightarrow>
          if session_id = [] then u
          else (case stop_events u session_id of
                  Some e \<Rightarrow>
                    emit (Generation_stop_acknowledged session_id rid)
                      (u\<lparr>event_flags := (event_flags u)(e := True)\<rparr>)
                | None \<Rightarrow> emit (Generation_stop_error no_active_generation rid) u))"

text \<open>
  What \<open>handle_message\<close> hands to the thread it starts: the closure of
  \<open>process_agent_response\<close> (the room \<open>sid\<close>, \<open>session_id\<close>, \<open>user_message\<close> and the
  stop event).
\<close>

record generation =
  g_sid :: pystr
  g_session_id :: pystr
  g_user_message :: pystr
  g_stop_event :: nat

text \<open>
  \<open>handle_message\<close>: \<open>data_message\<close> is \<open>data.get("message", "")\<close>, \<open>ts1\<close> and \<open>ts2\<close>
  are the time stamps of the two \<open>datetime.now()\<close> calls. The result is the session id now
  in the Flask session (\<open>None\<close> when the handler did not touch it), the new state, and the
  generation whose thread was started, if any.
\<close>

definition handle_message ::
  "(nat \<Rightarrow> pystr) \<Rightarrow> pystr option \<Rightarrow> pystr \<Rightarrow> pystr \<Rightarrow> pystr \<Rightarrow> pystr \<Rightarrow> pystr \<Rightarrow> chat_ui
     \<Rightarrow> pystr option \<times> chat_ui \<times> generation option" where
  "handle_message unicode_lower sess rid uuid ts1 ts2 data_message u =
     (if \<not> agent_ready u \<or> sfc_agent u = None then
        (sess,
         emit (Agent_response \<lparr>role = Assistant, content = not_ready_content, timestamp = ts1\<rparr> rid) u,
         None)
      else
        (let session_id = resolve_session sess uuid;
             user_message = py_strip data_message
         in if user_message = [] then (Some session_id, u, None)
            else
              (let user_msg = \<lparr>role = User, content = user_message, timestamp = ts1\<rparr>;
                   conv = (case conversations u session_id of None \<Rightarrow> [] | Some c \<Rightarrow> c)
                            @ [user_msg];
                   u1 = emit (Message_received user_msg rid)
                          (u\<lparr>conversations := (conversations u)(session_id \<mapsto> conv)\<rparr>)
               in if py_lower unicode_lower user_message
                       \<in> set [ascii ''exit'', ascii ''quit'', ascii ''bye'']
                  then
                    (let goodbye_msg =
                           \<lparr>role = Assistant, content = goodbye_content, timestamp = ts2\<rparr>
                     in (Some session_id,
                         emit (Agent_response goodbye_msg rid)
                           (u1\<lparr>conversations :=
                                 (conversations u1)(session_id \<mapsto> conv @ [goodbye_msg])\<rparr>),
                         None))
                  else
                    (let ev = next_object u1;
                         th = Suc ev
                     in (Some session_id,
                         u1\<lparr>stop_events := (stop_events u1)(session_id \<mapsto> ev),
                            event_flags := (event_flags u1)(ev := False),
                            active_threads := (active_threads u1)(session_id \<mapsto> th),
                            next_object := Suc th\<rparr>,
                         Some \<lparr>g_sid = rid, g_session_id = session_id,
                               g_user_message = user_message, g_stop_event = ev\<rparr>)))))"

text \<open>
  \<open>handle_clear_conversation\<close>: \<open>data_session\<close> is \<open>data.get("sessionId")\<close> (\<open>None\<close>
  when there is no \<open>data\<close> or no such key), \<open>reinit_ok\<close> tells whether the constructor
  \<open>SFCWizardAgent()\<close> returned (its exception is caught and logged), \<open>ts\<close> and \<open>now_ts\<close>
  are the two readings of \<open>datetime.now()\<close>. The result is the session id now in the Flask
  session and the new state.
\<close>

definition handle_clear_conversation ::
  "pystr option \<Rightarrow> pystr option \<Rightarrow> pystr \<Rightarrow> pystr \<Rightarrow> bool \<Rightarrow> pystr \<Rightarrow> pystr \<Rightarrow> chat_ui
     \<Rightarrow> pystr \<times> chat_ui" where
  "handle_clear_conversation data_session sess rid uuid reinit_ok ts now_ts u =
     (let session_id =
            (case data_session of
               Some d \<Rightarrow> if d \<noteq> [] then d else resolve_session sess uuid
             | None \<Rightarrow> resolve_session sess uuid);
          u1 = u\<lparr>conversations := (conversations u)(session_id \<mapsto> [])\<rparr>;
          u2 = (case sfc_agent u1 of
                  None \<Rightarrow> u1
                | Some a \<Rightarrow>
                    if reinit_ok
                    then u1\<lparr>sfc_agent := Some (next_object u1),
                            next_object := Suc (next_object u1)\<rparr>
                    else u1);
          msg = \<lparr>role = Assistant, content = welcome_message, timestamp = ts\<rparr>;
          conv = (case conversations u2 session_id of None \<Rightarrow> [] | Some c \<Rightarrow> c) @ [msg];
          u3 = u2\<lparr>conversations := (conversations u2)(session_id \<mapsto> conv)\<rparr>;
          u4 = emit (Conversation_cleared conv rid) u3
      in (session_id, u4\<lparr>session_timestamps := (session_timestamps u4)(session_id \<mapsto> now_ts)\<rparr>))"

section \<open>A generation and its environment\<close>

text \<open>
  \<open>process_agent_response\<close> runs in a thread of its own, next to the worker thread of
  \<open>StoppableAgent\<close> and the socket handlers. The state a running generation reads and
  writes: the \<open>ChatUI\<close> object, the capture it installed as \<open>sys.stdout\<close>
  (\<open>redirected\<close> while it is installed), the \<open>StoppableAgent\<close> object it shares with the
  worker, whether the worker thread is alive, and whether the worker's wrappers around
  \<open>sys.stdout.write\<close> and \<open>print\<close> are in place (\<open>patched\<close>).
\<close>

record gen_state =
  ui :: chat_ui
  cap :: capture
  worker :: stoppable_agent
  worker_alive :: bool
  patched :: bool
  redirected :: bool

text \<open>
  What the other threads do between two steps of the generation is a list of actions:
  a stop request of a client (its Flask session id and its \<open>request.sid\<close>), a fragment
  written to \<open>sys.stdout\<close> (with the readings of \<open>time.time()\<close> and \<open>datetime.now()\<close>
  inside the call), the end of the agent call in the worker, and the exit of the worker
  thread.
\<close>

datatype env_action =
    Stop_request "pystr option" pystr
  | Stdout_write pystr real pystr
  | Worker_finishes agent_outcome
  | Thread_exits

text \<open>
  \<open>suppressed_stdout_write\<close>, the wrapper the worker puts around the \<open>write\<close> of the
  capture: \<open>stop_is_set\<close> is the flag of the worker's stop event.
\<close>

definition suppressed_stdout_write ::
  "bool \<Rightarrow> (nat \<Rightarrow> bool) \<Rightarrow> real \<Rightarrow> pystr \<Rightarrow> pystr \<Rightarrow> capture \<Rightarrow> nat \<times> capture \<times> emitted list" where
  "suppressed_stdout_write stop_is_set flags current_time ts txt c =
     (if stop_is_set then (length txt, c, [])
      else capture_write flags current_time ts txt c)"

text \<open>
  A call of \<open>sys.stdout.write\<close> during the generation. Once \<open>sys.stdout\<close> is restored
  the call no longer reaches the capture. The events the capture emits go to the log.
\<close>

definition stdout_write :: "nat \<Rightarrow> real \<Rightarrow> pystr \<Rightarrow> pystr \<Rightarrow> gen_state \<Rightarrow> gen_state" where
  "stdout_write ev current_time ts txt gs =
     (if \<not> redirected gs then gs
      else
        (let flags = event_flags (ui gs);
             (n, c, evs) =
               (if patched gs
                then suppressed_stdout_write (flags ev) flags current_time ts txt (cap gs)
                else capture_write flags current_time ts txt (cap gs))
         in gs\<lparr>cap := c, ui := (ui gs)\<lparr>client_log := client_log (ui gs) @ evs\<rparr>\<rparr>))"

text \<open>
  \<open>print(txt)\<close>: the worker's \<open>suppressed_print\<close> drops the call when the flag is set;
  otherwise \<open>print\<close> writes the text and then a newline.
\<close>

definition py_print :: "nat \<Rightarrow> real \<Rightarrow> pystr \<Rightarrow> pystr \<Rightarrow> gen_state \<Rightarrow> gen_state" where
  "py_print ev current_time ts txt gs =
     (if patched gs \<and> event_flags (ui gs) ev then gs
      else stdout_write ev current_time ts [10] (stdout_write ev current_time ts txt gs))"

text \<open>\<open>streaming_capture.flush()\<close>, with its events sent to the log.\<close>

definition flush_capture :: "pystr \<Rightarrow> gen_state \<Rightarrow> gen_state" where
  "flush_capture ts gs =
     (let (c, evs) = capture_flush (event_flags (ui gs)) ts (cap gs)
      in gs\<lparr>cap := c, ui := (ui gs)\<lparr>client_log := client_log (ui gs) @ evs\<rparr>\<rparr>)"

text \<open>
  One action of the environment. The end of the agent call runs the tail of
  \<open>run_in_thread\<close>, which reads the stop flag and removes the wrappers.
\<close>

fun env_step :: "generation \<Rightarrow> env_action \<Rightarrow> gen_state \<Rightarrow> gen_state" where
  "env_step g (Stop_request sess rid) gs = gs\<lparr>ui := handle_stop_generation sess rid (ui gs)\<rparr>"
| "env_step g (Stdout_write txt current_time ts) gs =
     stdout_write (g_stop_event g) current_time ts txt gs"
| "env_step g (Worker_finishes out) gs =
     gs\<lparr>worker := run_in_thread out (event_flags (ui gs) (g_stop_event g)) (worker gs),
        patched := False\<rparr>"
| "env_step g Thread_exits gs = gs\<lparr>worker_alive := False\<rparr>"

fun env_steps :: "generation \<Rightarrow> env_action list \<Rightarrow> gen_state \<Rightarrow> gen_state" where
  "env_steps g [] gs = gs"
| "env_steps g (a # as) gs = env_steps g as (env_step g a gs)"

section \<open>StoppableAgent.run_with_timeout\<close>

text \<open>
  One iteration of the polling loop sees: what the environment did since the previous
  iteration (\<open>before_poll\<close>, which covers the \<open>time.sleep(0.1)\<close>), the readings of
  \<open>time.time()\<close> and \<open>datetime.now()\<close> (\<open>clock\<close>, \<open>stamp\<close>), and what the environment
  does during the \<open>time.sleep(1.0)\<close> of the stop branch (\<open>during_grace\<close>).
\<close>

record tick =
  before_poll :: "env_action list"
  clock :: real
  stamp :: pystr
  during_grace :: "env_action list"

text \<open>
  The \<open>while\<close> loop over a finite schedule of iterations. The result is \<open>None\<close> when
  the schedule ends with the loop still running; otherwise \<open>Some (Some r)\<close> for a
  \<open>return r\<close> inside the loop and \<open>Some None\<close> when the loop is left (by its guard or by
  \<open>break\<close>).
\<close>

fun wait_loop ::
  "generation \<Rightarrow> nat \<Rightarrow> real \<Rightarrow> tick list \<Rightarrow> gen_state \<Rightarrow> (pystr option \<times> gen_state) option" where
  "wait_loop g timeout start_time [] gs = None"
| "wait_loop g timeout start_time (t # ts) gs =
     (let gs1 = env_steps g (before_poll t) gs in
      if worker_alive gs1 \<and> \<not> completed (worker gs1) then
        if event_flags (ui gs1) (g_stop_event g) then
          (let gs2 = py_print (g_stop_event g) (clock t) (stamp t) stop_requested_notice gs1;
               gs3 = env_steps g (during_grace t) gs2
           in if worker_alive gs3
              then Some (Some stopped_by_user,
                         py_print (g_stop_event g) (clock t) (stamp t) still_running_notice gs3)
              else Some (None, gs3))
        else if clock t - start_time > real timeout
        then Some (Some (timed_out_text timeout), gs1)
        else wait_loop g timeout start_time ts gs1
      else Some (None, gs1))"

text \<open>
  Exceptions are values. \<open>str(e)\<close> of a \<open>KeyError\<close> is the \<open>repr\<close> of the key: the
  key between quotes (the escapes \<open>repr\<close> adds for quotes, backslashes and unprintable
  code points are not modelled).
\<close>

datatype py_exception = KeyError pystr | RuntimeError pystr

fun exception_str :: "py_exception \<Rightarrow> pystr" where
  "exception_str (RuntimeError m) = m"
| "exception_str (KeyError k) = [39] @ k @ [39]"

text \<open>
  \<open>run_with_timeout\<close>: \<open>agent_thread.start()\<close> raises \<open>RuntimeError\<close> when no thread can
  be started (\<open>spawn_error\<close> is its text); otherwise the worker is alive and installs its
  wrappers, \<open>start_time\<close> is read and the loop runs. After the loop comes
  \<open>return_result\<close>.
\<close>

definition run_with_timeout ::
  "generation \<Rightarrow> nat \<Rightarrow> pystr option \<Rightarrow> real \<Rightarrow> tick list \<Rightarrow> gen_state
     \<Rightarrow> ((py_exception + pystr) \<times> gen_state) option" where
  "run_with_timeout g timeout spawn_error start_time ts gs =
     (case spawn_error of
        Some m \<Rightarrow> Some (Inl (RuntimeError m), gs)
      | None \<Rightarrow>
          (case wait_loop g timeout start_time ts (gs\<lparr>worker_alive := True, patched := True\<rparr>) of
             None \<Rightarrow> None
           | Some (Some r, gs1) \<Rightarrow> Some (Inr r, gs1)
           | Some (None, gs1) \<Rightarrow> Some (Inr (return_result (worker gs1)), gs1)))"

text \<open>
  \<open>_run_agent_with_stop_check\<close>: a new \<open>StoppableAgent\<close>, run with the default timeout
  of 300 seconds.
\<close>

definition run_agent_with_stop_check ::
  "generation \<Rightarrow> pystr option \<Rightarrow> real \<Rightarrow> tick list \<Rightarrow> gen_state
     \<Rightarrow> ((py_exception + pystr) \<times> gen_state) option" where
  "run_agent_with_stop_check g spawn_error start_time ts gs =
     run_with_timeout g 300 spawn_error start_time ts (gs\<lparr>worker := new_stoppable_agent\<rparr>)"

section \<open>process_agent_response\<close>

text \<open>
  What the environment supplies to one run of \<open>process_agent_response\<close>, in the order
  of use: the clock reading when the capture is created; the actions before the first
  check of the stop event; whether the worker thread can be started; \<open>start_time\<close> and
  the iterations of the polling loop; the actions before the check that follows the
  supervisor's return; the time stamp of the flush; clock and time stamp of the
  visualisation notice; the actions before the last check of the stop event; the time
  stamp of the assistant message; and, for the \<open>except\<close> handler, the time stamp of its
  flush, the actions before its check of the stop event and the time stamp of the error
  message. The other threads act at these points only; the actions before the last check
  fall into the pause after the flush, while the capture is still installed.
\<close>

record generation_env =
  e_capture_created :: real
  e_before_start :: "env_action list"
  e_spawn_error :: "pystr option"
  e_start_time :: real
  e_ticks :: "tick list"
  e_after_run :: "env_action list"
  e_flush_stamp :: pystr
  e_notice_clock :: real
  e_notice_stamp :: pystr
  e_before_commit :: "env_action list"
  e_response_stamp :: pystr
  e_handler_stamp :: pystr
  e_in_handler :: "env_action list"
  e_error_stamp :: pystr

text \<open>\<open>self.conversations[session_id].append(m)\<close>: a missing key raises \<open>KeyError\<close>.\<close>

definition append_message :: "pystr \<Rightarrow> message \<Rightarrow> chat_ui \<Rightarrow> py_exception + chat_ui" where
  "append_message session_id m u =
     (case conversations u session_id of
        None \<Rightarrow> Inl (KeyError session_id)
      | Some c \<Rightarrow> Inr (u\<lparr>conversations := (conversations u)(session_id \<mapsto> c @ [m])\<rparr>))"

text \<open>
  The outer \<open>finally\<close>: the registrations of the session are deleted, whatever they hold,
  and the typing indicator is cleared. The first component is the exception that leaves
  \<open>process_agent_response\<close>, if any.
\<close>

definition end_generation ::
  "generation \<Rightarrow> py_exception option \<times> chat_ui \<Rightarrow> py_exception option \<times> chat_ui" where
  "end_generation g r =
     (case r of
        (exn, u) \<Rightarrow>
          (exn,
           emit (Agent_typing False (g_sid g))
             (u\<lparr>stop_events := (stop_events u)(g_session_id g := None),
                active_threads := (active_threads u)(g_session_id g := None)\<rparr>)))"

text \<open>
  The \<open>except Exception as e\<close> handler. An exception raised by its own append is not
  caught again.
\<close>

definition exception_handler ::
  "generation \<Rightarrow> generation_env \<Rightarrow> py_exception \<Rightarrow> gen_state \<Rightarrow> py_exception option \<times> chat_ui" where
  "exception_handler g env e gs =
     (let gs1 = flush_capture (e_handler_stamp env) gs;
          gs2 = gs1\<lparr>ui := emit (Agent_streaming_end (g_sid g)) (ui gs1)\<rparr>;
          gs3 = env_steps g (e_in_handler env) gs2
      in if event_flags (ui gs3) (g_stop_event g)
         then (None, emit (Generation_stopped was_stopped_by_user (g_sid g)) (ui gs3))
         else
           (let error_msg = \<lparr>role = Assistant, content = error_content (exception_str e),
                             timestamp = e_error_stamp env\<rparr>
            in case append_message (g_session_id g) error_msg (ui gs3) of
                 Inl e' \<Rightarrow> (Some e', ui gs3)
               | Inr u \<Rightarrow> (None, emit (Agent_response error_msg (g_sid g)) u)))"

text \<open>
  The start of \<open>process_agent_response\<close>, up to the first check of the stop event: the
  typing indicator and the start of streaming are announced, the capture is created and
  installed; the environment acts before the check.
\<close>

definition start_generation :: "generation \<Rightarrow> generation_env \<Rightarrow> chat_ui \<Rightarrow> gen_state" where
  "start_generation g env u =
     (let sid = g_sid g;
          u1 = emit (Agent_typing True sid) u;
          u2 = emit (Agent_streaming_start (g_session_id g) sid) u1;
          gs0 = \<lparr>ui = u2, cap = new_capture sid (Some (g_stop_event g)) (e_capture_created env),
                 worker = new_stoppable_agent, worker_alive = False, patched = False,
                 redirected = True\<rparr>
      in env_steps g (e_before_start env) gs0)"

text \<open>
  \<open>process_agent_response\<close>. The result is \<open>None\<close> when the schedule of the polling
  loop ends with the loop still running.
\<close>

definition process_agent_response ::
  "(nat \<Rightarrow> pystr) \<Rightarrow> generation \<Rightarrow> generation_env \<Rightarrow> chat_ui
     \<Rightarrow> (py_exception option \<times> chat_ui) option" where
  "process_agent_response unicode_lower g env u =
     (let sid = g_sid g;
          ev = g_stop_event g;
          gs1 = start_generation g env u
      in if event_flags (ui gs1) ev
         then Some (end_generation g
                (None, emit (Generation_stopped stopped_before_starting sid) (ui gs1)))
         else
           (case run_agent_with_stop_check g (e_spawn_error env) (e_start_time env)
                   (e_ticks env) gs1 of
              None \<Rightarrow> None
            | Some (Inl e, gs2) \<Rightarrow>
                Some (end_generation g (exception_handler g env e (gs2\<lparr>redirected := False\<rparr>)))
            | Some (Inr response, gs2) \<Rightarrow>
                (let gs3 = env_steps g (e_after_run env) gs2
                 in if event_flags (ui gs3) ev
                    then Some (end_generation g
                           (None, emit (Generation_stopped was_stopped_by_user sid) (ui gs3)))
                    else
                      (let gs4 = flush_capture (e_flush_stamp env) gs3;
                           gs5 = (if py_contains (ascii ''visualize'')
                                       (py_lower unicode_lower (g_user_message g))
                                  then py_print ev (e_notice_clock env) (e_notice_stamp env)
                                         visualization_notice gs4
                                  else gs4);
                           gs6 = (env_steps g (e_before_commit env) gs5)\<lparr>redirected := False\<rparr>
                       in if \<not> event_flags (ui gs6) ev
                          then
                            (let formatted_response = format_response (py_str_object response);
                                 u3 = emit (Agent_streaming_end sid) (ui gs6);
                                 agent_msg = \<lparr>role = Assistant, content = formatted_response,
                                              timestamp = e_response_stamp env\<rparr>
                             in case append_message (g_session_id g) agent_msg u3 of
                                  Inl e \<Rightarrow>
                                    Some (end_generation g
                                      (exception_handler g env e (gs6\<lparr>ui := u3\<rparr>)))
                                | Inr u4 \<Rightarrow> Some (end_generation g (None, u4)))
                          else Some (end_generation g (None, ui gs6))))))"

text \<open>
  One turn: \<open>handle_message\<close>, followed by the run of the thread it started (if it
  started one).
\<close>

definition message_turn ::
  "(nat \<Rightarrow> pystr) \<Rightarrow> pystr option \<Rightarrow> pystr \<Rightarrow> pystr \<Rightarrow> pystr \<Rightarrow> pystr \<Rightarrow> pystr \<Rightarrow> generation_env
     \<Rightarrow> chat_ui \<Rightarrow> (py_exception option \<times> chat_ui) option" where
  "message_turn unicode_lower sess rid uuid ts1 ts2 data_message env u =
     (case handle_message unicode_lower sess rid uuid ts1 ts2 data_message u of
        (s, u1, None) \<Rightarrow> Some (None, u1)
      | (s, u1, Some g) \<Rightarrow> process_agent_response unicode_lower g env u1)"

section \<open>Schedules and concrete inputs\<close>

text \<open>
  Two kinds of action matter to the supervisor: a stop request, and the end of the worker
  (of its agent call, or of its thread). A list of actions is \<open>quiet\<close> when it holds
  neither: the other threads only write to \<open>sys.stdout\<close>.
\<close>

fun is_stop_request :: "env_action \<Rightarrow> bool" where
  "is_stop_request (Stop_request sess rid) = True"
| "is_stop_request a = False"

fun ends_worker :: "env_action \<Rightarrow> bool" where
  "ends_worker (Worker_finishes out) = True"
| "ends_worker Thread_exits = True"
| "ends_worker a = False"

definition quiet :: "env_action list \<Rightarrow> bool" where
  "quiet acts = list_all (\<lambda>a. \<not> is_stop_request a \<and> \<not> ends_worker a) acts"

text \<open>
  A capture whose buffer holds \<open>abc\<close>: a new capture after one \<open>write("abc")\<close> made at
  the time of its creation, while the stop event was not set.
\<close>

definition buffered_abc :: capture where
  "buffered_abc =
     fst (snd (capture_write (\<lambda>e. False) 0 (ascii ''t0'') (ascii ''abc'')
                 (new_capture (ascii ''room'') (Some 0) 0)))"

text \<open>
  A \<open>ChatUI\<close> whose agent is initialised, and a lower-casing table that leaves the code
  points beyond ASCII alone.
\<close>

definition ready_ui :: chat_ui where
  "ready_ui = initialize_agent new_chat_ui"

definition plain_lower :: "nat \<Rightarrow> pystr" where
  "plain_lower c = [c]"

text \<open>
  An environment in which nothing happens, and an iteration of the polling loop with given
  actions and clock reading. \<open>first_message\<close> and \<open>second_message\<close> are two messages of
  one session, the second sent while the generation of the first is in flight;
  \<open>first_generation\<close> and \<open>second_generation\<close> are the closures of their threads. In
  \<open>answer_env\<close> the agent returns \<open>ok\<close> between the first and the second poll.
\<close>

definition idle_env :: generation_env where
  "idle_env =
     \<lparr>e_capture_created = 0, e_before_start = [], e_spawn_error = None, e_start_time = 0,
      e_ticks = [], e_after_run = [], e_flush_stamp = ascii ''t5'', e_notice_clock = 0,
      e_notice_stamp = ascii ''t6'', e_before_commit = [], e_response_stamp = ascii ''t7'',
      e_handler_stamp = ascii ''t8'', e_in_handler = [], e_error_stamp = ascii ''t9''\<rparr>"

definition poll :: "env_action list \<Rightarrow> real \<Rightarrow> tick" where
  "poll acts c = \<lparr>before_poll = acts, clock = c, stamp = ascii ''tp'', during_grace = []\<rparr>"

definition first_message :: "pystr option \<times> chat_ui \<times> generation option" where
  "first_message =
     handle_message plain_lower (Some (ascii ''s1'')) (ascii ''r1'') (ascii ''uu'')
       (ascii ''t1'') (ascii ''t2'') (ascii ''first'') ready_ui"

definition second_message :: "pystr option \<times> chat_ui \<times> generation option" where
  "second_message =
     handle_message plain_lower (Some (ascii ''s1'')) (ascii ''r1'') (ascii ''uu'')
       (ascii ''t3'') (ascii ''t4'') (ascii ''second'') (fst (snd first_message))"

definition first_generation :: generation where
  "first_generation =
     \<lparr>g_sid = ascii ''r1'', g_session_id = ascii ''s1'', g_user_message = ascii ''first'',
      g_stop_event = 1\<rparr>"

definition second_generation :: generation where
  "second_generation =
     \<lparr>g_sid = ascii ''r1'', g_session_id = ascii ''s1'', g_user_message = ascii ''second'',
      g_stop_event = 3\<rparr>"

definition answer_env :: generation_env where
  "answer_env =
     idle_env\<lparr>e_ticks :=
       [poll [] 1,
        poll [Worker_finishes (Returns (py_str_object (ascii ''ok''))), Thread_exits] 2]\<rparr>"

text \<open>
  A list of actions is \<open>unstopped\<close> when it holds no stop request.
\<close>

definition unstopped :: "env_action list \<Rightarrow> bool" where
  "unstopped acts = list_all (\<lambda>a. \<not> is_stop_request a) acts"



definition error_env :: generation_env where
  "error_env =
     idle_env\<lparr>e_ticks :=
       [poll [] 1, poll [Worker_finishes (Raises (ascii ''boom'')), Thread_exits] 2]\<rparr>"

text \<open>
  The state of the first generation when its polling loop starts, and four iterations:
  one before which the worker has ended with the result \<open>done\<close> and a stop request has
  then arrived, 301 seconds after the start; one before which only the stop request has
  arrived, at the same time; and two in which nothing has happened, 301 seconds and one
  second after the start.
\<close>

definition polling_state :: gen_state where
  "polling_state =
     (start_generation first_generation idle_env (fst (snd first_message)))
       \<lparr>worker_alive := True, patched := True\<rparr>"

definition tick_done_stopped_late :: tick where
  "tick_done_stopped_late =
     poll [Worker_finishes (Returns (py_str_object (ascii ''done''))), Thread_exits,
           Stop_request (Some (ascii ''s1'')) (ascii ''r1'')] 301"

definition tick_stopped_late :: tick where
  "tick_stopped_late = poll [Stop_request (Some (ascii ''s1'')) (ascii ''r1'')] 301"

definition tick_late :: tick where
  "tick_late = poll [] 301"

definition tick_early :: tick where
  "tick_early = poll [] 1"

section \<open>Properties of the capture\<close>

lemma ascii_simps:
  "ascii [] = []"
  "ascii (c # cs) = of_char c # ascii cs"
  by (simp_all add: ascii_def)

lemma py_strip_eq_Nil: "py_strip s = [] \<longleftrightarrow> list_all py_isspace s"
proof
  assume h: "py_strip s = []"
  show "list_all py_isspace s"
  proof (rule ccontr)
    assume "\<not> list_all py_isspace s"
    then have ne: "dropWhile py_isspace s \<noteq> []"
      by (simp add: list_all_iff)
    then have "\<not> py_isspace (hd (dropWhile py_isspace s))"
      by (rule hd_dropWhile)
    moreover have "hd (dropWhile py_isspace s) \<in> set (rev (dropWhile py_isspace s))"
      using ne by simp
    ultimately have "dropWhile py_isspace (rev (dropWhile py_isspace s)) \<noteq> []"
      by (auto simp: dropWhile_eq_Nil_conv)
    with h show False by (simp add: py_strip_def)
  qed
next
  assume "list_all py_isspace s"
  then have "dropWhile py_isspace s = []"
    by (simp add: list_all_iff)
  then show "py_strip s = []"
    by (auto simp: py_strip_def dest: set_dropWhileD)
qed

text \<open>
  Every buffer that \<open>write\<close> builds is empty or holds a code point that is not white
  space: \<open>write\<close> adds a fragment only when the fragment has one.
\<close>

lemma capture_write_buffer:
  assumes "accumulated_output cp = [] \<or> py_strip (accumulated_output cp) \<noteq> []"
  shows "accumulated_output (fst (snd (capture_write flags now ts txt cp))) = []
         \<or> py_strip (accumulated_output (fst (snd (capture_write flags now ts txt cp)))) \<noteq> []"
  using assms
  by (auto simp: capture_write_def emit_partial_response_def Let_def py_strip_eq_Nil
      split: if_splits)

lemma buffered_abc_eq:
  "buffered_abc =
     \<lparr>room_id = ascii ''room'', original_stdout = [Stream_write (ascii ''abc'')],
      accumulated_output = ascii ''abc'', last_emit_time = 0, emit_interval = 1 / 10,
      stop_event = Some 0\<rparr>"
  by (simp add: buffered_abc_def capture_write_def new_capture_def py_strip_def ascii_simps
      py_isspace_def)


text \<open>
  C5, as the code has it. \<open>flush()\<close> with the stop event set emits no partial-output
  event and leaves the buffer as it was (it is not cleared). \<open>flush()\<close> with the stop
  event not set and a buffer that holds a code point other than white space (as every
  non-empty buffer built by \<open>write\<close> does, see \<open>capture_write_buffer\<close>) emits the
  buffer as exactly one partial-output event and leaves the buffer empty.
\<close>

theorem capture_flush_amended:
  "(stop_signalled flags cp \<longrightarrow>
      snd (capture_flush flags ts cp) = []
      \<and> accumulated_output (fst (capture_flush flags ts cp)) = accumulated_output cp)
   \<and> (\<not> stop_signalled flags cp \<and> py_strip (accumulated_output cp) \<noteq> [] \<longrightarrow>
      snd (capture_flush flags ts cp)
        = [Agent_streaming (accumulated_output cp) ts (room_id cp)]
      \<and> accumulated_output (fst (capture_flush flags ts cp)) = [])"
  by (simp add: capture_flush_def emit_partial_response_def Let_def)

text \<open>
  C5 as stated fails: with \<open>abc\<close> in the buffer and the stop event set, \<open>flush()\<close>
  emits nothing and the buffer still holds \<open>abc\<close>.
\<close>

theorem capture_flush_counterexample:
  "stop_signalled (\<lambda>e. True) buffered_abc
   \<and> snd (capture_flush (\<lambda>e. True) (ascii ''t1'') buffered_abc) = []
   \<and> accumulated_output (fst (capture_flush (\<lambda>e. True) (ascii ''t1'') buffered_abc))
       = ascii ''abc''
   \<and> accumulated_output (fst (capture_flush (\<lambda>e. True) (ascii ''t1'') buffered_abc)) \<noteq> []"
  by (simp add: buffered_abc_eq capture_flush_def emit_partial_response_def stop_signalled_def
      ascii_simps)

theorem capture_flush_amended_witness:
  "stop_signalled (\<lambda>e. True) buffered_abc
   \<and> snd (capture_flush (\<lambda>e. True) (ascii ''t1'') buffered_abc) = []
   \<and> accumulated_output (fst (capture_flush (\<lambda>e. True) (ascii ''t1'') buffered_abc))
       = accumulated_output buffered_abc
   \<and> \<not> stop_signalled (\<lambda>e. False) buffered_abc
   \<and> py_strip (accumulated_output buffered_abc) \<noteq> []
   \<and> snd (capture_flush (\<lambda>e. False) (ascii ''t1'') buffered_abc)
       = [Agent_streaming (ascii ''abc'') (ascii ''t1'') (ascii ''room'')]
   \<and> accumulated_output (fst (capture_flush (\<lambda>e. False) (ascii ''t1'') buffered_abc)) = []"
proof -
  have a: "stop_signalled (\<lambda>e. True) buffered_abc"
    by (simp add: buffered_abc_eq stop_signalled_def)
  have b: "\<not> stop_signalled (\<lambda>e. False) buffered_abc"
    by (simp add: buffered_abc_eq stop_signalled_def)
  have c: "py_strip (accumulated_output buffered_abc) \<noteq> []"
    by (simp add: buffered_abc_eq py_strip_def ascii_simps py_isspace_def)
  have d: "accumulated_output buffered_abc = ascii ''abc''"
    "room_id buffered_abc = ascii ''room''"
    by (simp_all add: buffered_abc_eq)
  show ?thesis
    using a b c d
      capture_flush_amended [of "\<lambda>e. True" buffered_abc "ascii ''t1''"]
      capture_flush_amended [of "\<lambda>e. False" buffered_abc "ascii ''t1''"]
    by simp
qed

section \<open>Properties of the handlers\<close>

lemma emit_simps:
  "conversations (emit e u) = conversations u"
  "session_timestamps (emit e u) = session_timestamps u"
  "active_threads (emit e u) = active_threads u"
  "stop_events (emit e u) = stop_events u"
  "event_flags (emit e u) = event_flags u"
  "next_object (emit e u) = next_object u"
  "sfc_agent (emit e u) = sfc_agent u"
  "agent_ready (emit e u) = agent_ready u"
  "client_log (emit e u) = client_log u @ [e]"
  by (simp_all add: emit_def)

lemma py_lower_Nil: "py_lower ul [] = []"
  by (simp add: py_lower_def)

lemma sentinels_nonempty:
  "ascii ''exit'' \<noteq> []" "ascii ''quit'' \<noteq> []" "ascii ''bye'' \<noteq> []"
  by (simp_all add: ascii_simps)

text \<open>
  C9. \<open>handle_clear_conversation\<close>, called twice in a row by one client, whatever the
  transcripts held before: after the first call the transcript of the session it cleared
  is exactly one message, the assistant's fixed welcome message; after the second call
  the same holds of the session the second call cleared, and the transcript of the first
  session is still exactly one welcome message (that of the second call when both calls
  cleared the same session).
\<close>

theorem handle_clear_twice:
  "let r1 = handle_clear_conversation d1 sess rid uuid1 ok1 ts1 n1 u;
       r2 = handle_clear_conversation d2 (Some (fst r1)) rid uuid2 ok2 ts2 n2 (snd r1);
       greeting = (\<lambda>ts. \<lparr>role = Assistant, content = welcome_message, timestamp = ts\<rparr>)
   in conversations (snd r1) (fst r1) = Some [greeting ts1]
      \<and> conversations (snd r2) (fst r2) = Some [greeting ts2]
      \<and> conversations (snd r2) (fst r1) = Some [greeting (if fst r2 = fst r1 then ts2 else ts1)]"
  by (simp add: handle_clear_conversation_def Let_def emit_simps split: option.splits)

lemma ready_ui_simps:
  "agent_ready ready_ui" "sfc_agent ready_ui = Some 0" "next_object ready_ui = 1"
  "conversations ready_ui = Map.empty" "stop_events ready_ui = Map.empty"
  "active_threads ready_ui = Map.empty" "client_log ready_ui = []"
  "event_flags ready_ui = (\<lambda>e. False)"
  by (simp_all add: ready_ui_def initialize_agent_def new_chat_ui_def)

lemma strip_EXIT: "py_strip (ascii '' EXIT '') = ascii ''EXIT''"
  by (simp add: py_strip_def ascii_simps py_isspace_def)

lemma lower_EXIT: "py_lower plain_lower (ascii ''EXIT'') = ascii ''exit''"
  by (simp add: py_lower_def ascii_simps)

text \<open>
  C8. With the agent ready, a message whose stripped text is \<open>exit\<close>, \<open>quit\<close> or
  \<open>bye\<close> in any mix of cases: \<open>handle_message\<close> appends the user message and the fixed
  farewell to the transcript of the session (and to no other), emits the echo and the
  farewell, starts no thread, and leaves the stop events, their flags, the thread table and
  the object counter as they were (no stop event is created). The turn ends there.
\<close>

theorem exit_short_circuits:
  assumes ready: "agent_ready u" "sfc_agent u \<noteq> None"
    and sentinel: "py_lower ul (py_strip data_message)
                     \<in> set [ascii ''exit'', ascii ''quit'', ascii ''bye'']"
  shows "let session_id = resolve_session sess uuid;
             previous = (case conversations u session_id of None \<Rightarrow> [] | Some c \<Rightarrow> c);
             user_msg = \<lparr>role = User, content = py_strip data_message, timestamp = ts1\<rparr>;
             goodbye_msg = \<lparr>role = Assistant, content = goodbye_content, timestamp = ts2\<rparr>;
             r = handle_message ul sess rid uuid ts1 ts2 data_message u;
             u' = fst (snd r)
         in fst r = Some session_id \<and> snd (snd r) = None
            \<and> conversations u' = (conversations u)(session_id \<mapsto> previous @ [user_msg, goodbye_msg])
            \<and> client_log u'
                = client_log u @ [Message_received user_msg rid, Agent_response goodbye_msg rid]
            \<and> stop_events u' = stop_events u \<and> event_flags u' = event_flags u
            \<and> active_threads u' = active_threads u \<and> next_object u' = next_object u
            \<and> message_turn ul sess rid uuid ts1 ts2 data_message env u = Some (None, u')"
proof -
  have ne: "py_strip data_message \<noteq> []"
    using sentinel sentinels_nonempty by (auto simp: py_lower_Nil)
  show ?thesis
    using ready sentinel ne
    by (auto simp: handle_message_def message_turn_def Let_def emit_simps)
qed

theorem exit_short_circuits_witness:
  "agent_ready ready_ui \<and> sfc_agent ready_ui \<noteq> None
   \<and> py_lower plain_lower (py_strip (ascii '' EXIT ''))
        \<in> set [ascii ''exit'', ascii ''quit'', ascii ''bye'']
   \<and> snd (snd (handle_message plain_lower (Some (ascii ''s1'')) (ascii ''r1'') (ascii ''uu'')
                  (ascii ''t1'') (ascii ''t2'') (ascii '' EXIT '') ready_ui)) = None
   \<and> conversations (fst (snd (handle_message plain_lower (Some (ascii ''s1'')) (ascii ''r1'')
                  (ascii ''uu'') (ascii ''t1'') (ascii ''t2'') (ascii '' EXIT '') ready_ui)))
        (ascii ''s1'')
      = Some [\<lparr>role = User, content = ascii ''EXIT'', timestamp = ascii ''t1''\<rparr>,
              \<lparr>role = Assistant, content = goodbye_content, timestamp = ascii ''t2''\<rparr>]
   \<and> stop_events (fst (snd (handle_message plain_lower (Some (ascii ''s1'')) (ascii ''r1'')
                  (ascii ''uu'') (ascii ''t1'') (ascii ''t2'') (ascii '' EXIT '') ready_ui)))
      = Map.empty"
proof -
  have h1: "agent_ready ready_ui" and h2: "sfc_agent ready_ui \<noteq> None"
    by (simp_all add: ready_ui_simps)
  have h3: "py_lower plain_lower (py_strip (ascii '' EXIT ''))
              \<in> set [ascii ''exit'', ascii ''quit'', ascii ''bye'']"
    by (simp add: strip_EXIT lower_EXIT)
  have s: "resolve_session (Some (ascii ''s1'')) (ascii ''uu'') = ascii ''s1''"
    by (simp add: resolve_session_def ascii_simps)
  show ?thesis
    using h1 h2 h3
      exit_short_circuits [OF h1 h2 h3, of "Some (ascii ''s1'')" "ascii ''uu''" "ascii ''t1''"
        "ascii ''t2''" "ascii ''r1''" idle_env]
    by (simp add: Let_def s strip_EXIT ready_ui_simps)
qed

text \<open>
  C4, as the code has it. The cleanup at the end of a generation deletes the registration
  of its session whatever token it holds, also that of a newer generation: afterwards the
  session has no registered stop event. No flag and no transcript changes.
\<close>

theorem end_generation_clears_registration:
  "stop_events (snd (end_generation g (x, u))) = (stop_events u)(g_session_id g := None)
   \<and> stop_events (snd (end_generation g (x, u))) (g_session_id g) = None
   \<and> event_flags (snd (end_generation g (x, u))) = event_flags u
   \<and> conversations (snd (end_generation g (x, u))) = conversations u"
  by (simp add: end_generation_def emit_simps)

text \<open>
  C4 as stated fails: two messages of one session, the second sent while the first
  generation is in flight. The registry then holds the stop event of the second
  generation, which is not that of the first; the cleanup of the first generation deletes
  the entry.
\<close>

theorem stale_cleanup_counterexample:
  "snd (snd first_message) = Some first_generation
   \<and> snd (snd second_message) = Some second_generation
   \<and> g_stop_event first_generation \<noteq> g_stop_event second_generation
   \<and> stop_events (fst (snd second_message)) (ascii ''s1'')
       = Some (g_stop_event second_generation)
   \<and> stop_events (snd (end_generation first_generation (None, fst (snd second_message))))
        (ascii ''s1'') = None"
  by code_simp

section \<open>Frames of the steps of a generation\<close>


lemma stdout_write_frame:
  "conversations (ui (stdout_write ev now ts txt gs)) = conversations (ui gs)"
  "stop_events (ui (stdout_write ev now ts txt gs)) = stop_events (ui gs)"
  "event_flags (ui (stdout_write ev now ts txt gs)) = event_flags (ui gs)"
  "worker (stdout_write ev now ts txt gs) = worker gs"
  "worker_alive (stdout_write ev now ts txt gs) = worker_alive gs"
  "patched (stdout_write ev now ts txt gs) = patched gs"
  "redirected (stdout_write ev now ts txt gs) = redirected gs"
  by (simp_all add: stdout_write_def Let_def split: prod.splits)







section \<open>Properties of the polling loop\<close>




text \<open>
  C2, as the code has it. In every iteration the loop guard comes first: when the worker
  thread is no longer alive or its completion flag is set at the start of the iteration,
  the loop is left (and the worker's result is returned), whatever the stop event and the
  clock say. Only when the guard holds is the stop event checked, and a set stop event
  takes the stop branch (which returns the stopped text when the thread is still alive
  after the pause, and leaves the loop otherwise) in preference to the deadline. Only with
  the stop event unset is the clock read: past the deadline the timed-out text is
  returned, otherwise the loop goes on.
\<close>

theorem poll_order:
  "let gs1 = env_steps g (before_poll t) gs;
       guard = (worker_alive gs1 \<and> \<not> completed (worker gs1));
       signalled = event_flags (ui gs1) (g_stop_event g);
       gs3 = env_steps g (during_grace t)
               (py_print (g_stop_event g) (clock t) (stamp t) stop_requested_notice gs1);
       r = wait_loop g timeout start (t # ts) gs
   in (\<not> guard \<longrightarrow> r = Some (None, gs1))
      \<and> (guard \<and> signalled \<longrightarrow>
            r = (if worker_alive gs3
                 then Some (Some stopped_by_user,
                            py_print (g_stop_event g) (clock t) (stamp t) still_running_notice gs3)
                 else Some (None, gs3)))
      \<and> (guard \<and> \<not> signalled \<and> clock t - start > real timeout \<longrightarrow>
            r = Some (Some (timed_out_text timeout), gs1))
      \<and> (guard \<and> \<not> signalled \<and> \<not> clock t - start > real timeout \<longrightarrow>
            r = wait_loop g timeout start ts gs1)"
  by (simp add: Let_def)

text \<open>
  C2 as stated fails: before the iteration the worker ends with the result \<open>done\<close>, a
  stop request arrives, and the clock reads 301 seconds. Completion flag and stop event
  are both set and the deadline has passed; the supervisor leaves the loop by its guard
  and returns \<open>done\<close>, which is neither the stopped text nor the timed-out text.
\<close>

theorem completion_first_counterexample:
  "completed (worker (env_steps first_generation (before_poll tick_done_stopped_late) polling_state))
   \<and> event_flags (ui (env_steps first_generation (before_poll tick_done_stopped_late) polling_state))
        (g_stop_event first_generation)
   \<and> clock tick_done_stopped_late - 0 > real 300
   \<and> map_option fst (wait_loop first_generation 300 0 [tick_done_stopped_late] polling_state)
       = Some None
   \<and> map_option fst
        (run_with_timeout first_generation 300 None 0 [tick_done_stopped_late]
           (start_generation first_generation idle_env (fst (snd first_message))))
       = Some (Inr (ascii ''done''))
   \<and> ascii ''done'' \<noteq> stopped_by_user \<and> ascii ''done'' \<noteq> timed_out_text 300"
  by code_simp

theorem poll_order_witness:
  "wait_loop first_generation 300 0 [tick_done_stopped_late] polling_state
     = Some (None, env_steps first_generation (before_poll tick_done_stopped_late) polling_state)
   \<and> map_option fst (wait_loop first_generation 300 0 [tick_stopped_late] polling_state)
       = Some (Some stopped_by_user)
   \<and> map_option fst (wait_loop first_generation 300 0 [tick_late] polling_state)
       = Some (Some (timed_out_text 300))
   \<and> wait_loop first_generation 300 0 [tick_early, tick_late] polling_state
       = wait_loop first_generation 300 0 [tick_late]
           (env_steps first_generation (before_poll tick_early) polling_state)"
proof -
  let ?g = first_generation
  let ?s = "\<lambda>t. env_steps ?g (before_poll t) polling_state"
  let ?guard = "\<lambda>t. worker_alive (?s t) \<and> \<not> completed (worker (?s t))"
  let ?set = "\<lambda>t. event_flags (ui (?s t)) (g_stop_event ?g)"
  have a: "\<not> ?guard tick_done_stopped_late"
    by code_simp
  have b: "?guard tick_stopped_late" "?set tick_stopped_late"
    "worker_alive (env_steps ?g (during_grace tick_stopped_late)
       (py_print (g_stop_event ?g) (clock tick_stopped_late) (stamp tick_stopped_late)
          stop_requested_notice (?s tick_stopped_late)))"
    by code_simp+
  have c: "?guard tick_late" "\<not> ?set tick_late" "clock tick_late - 0 > real 300"
    by code_simp+
  have d: "?guard tick_early" "\<not> ?set tick_early" "\<not> clock tick_early - 0 > real 300"
    by code_simp+
  have 1: "wait_loop ?g 300 0 [tick_done_stopped_late] polling_state
             = Some (None, ?s tick_done_stopped_late)"
    using a poll_order [of ?g tick_done_stopped_late polling_state 300 0 "[]"]
    by (simp add: Let_def del: wait_loop.simps)
  have 2: "map_option fst (wait_loop ?g 300 0 [tick_stopped_late] polling_state)
             = Some (Some stopped_by_user)"
    using b poll_order [of ?g tick_stopped_late polling_state 300 0 "[]"]
    by (simp add: Let_def del: wait_loop.simps)
  have 3: "map_option fst (wait_loop ?g 300 0 [tick_late] polling_state)
             = Some (Some (timed_out_text 300))"
    using c poll_order [of ?g tick_late polling_state 300 0 "[]"]
    by (simp add: Let_def del: wait_loop.simps)
  have 4: "wait_loop ?g 300 0 [tick_early, tick_late] polling_state
             = wait_loop ?g 300 0 [tick_late] (?s tick_early)"
    using d poll_order [of ?g tick_early polling_state 300 0 "[tick_late]"]
    by (simp add: Let_def del: wait_loop.simps)
  from 1 2 3 4 show ?thesis by blast
qed



section \<open>Stop requests outside a generation\<close>

lemma env_step_unstopped:
  assumes "\<not> is_stop_request a"
  shows "event_flags (ui (env_step g a gs)) = event_flags (ui gs)"
  using assms by (cases a; simp add: stdout_write_frame)

lemma env_steps_unstopped:
  assumes "unstopped acts"
  shows "event_flags (ui (env_steps g acts gs)) = event_flags (ui gs)"
  using assms
  by (induction acts arbitrary: gs) (simp_all add: unstopped_def env_step_unstopped)

lemma quiet_unstopped: "quiet acts \<Longrightarrow> unstopped acts"
  by (induction acts) (simp_all add: quiet_def unstopped_def)


lemma start_generation_unstopped:
  assumes "unstopped (e_before_start env)"
  shows "event_flags (ui (start_generation g env u)) = event_flags u"
  using assms by (simp add: start_generation_def Let_def env_steps_unstopped emit_simps)

lemma s1_nonempty: "ascii ''s1'' \<noteq> []"
  by (simp add: ascii_simps)

lemma strip_hi: "py_strip (ascii ''hi'') = ascii ''hi''"
  by (simp add: py_strip_def ascii_simps py_isspace_def)

lemma lower_hi: "py_lower plain_lower (ascii ''hi'') = ascii ''hi''"
  by (simp add: py_lower_def ascii_simps)

text \<open>
  C3, as the code has it. A stop request for a session that has no registered stop event
  (no generation in flight) is rejected: it emits the error \<open>No active generation to
  stop.\<close> and changes nothing else, so it leaves no signal behind. The next message of
  the session (the agent ready, the text not empty and not a sentinel) starts a generation
  with a new stop event, registered for the session and not set; unless a stop request
  arrives after that, the first check of the generation finds it not set.
\<close>

theorem stop_without_generation_is_rejected:
  assumes idle: "stop_events u session_id = None" and sid: "session_id \<noteq> []"
    and ready: "agent_ready u" "sfc_agent u \<noteq> None"
    and msg: "py_strip m \<noteq> []"
      "py_lower ul (py_strip m) \<notin> set [ascii ''exit'', ascii ''quit'', ascii ''bye'']"
    and calm: "unstopped (e_before_start env)"
  shows "let u1 = handle_stop_generation (Some session_id) rid u;
             r = handle_message ul (Some session_id) rid' uuid ts1 ts2 m u1
         in u1 = emit (Generation_stop_error no_active_generation rid) u
            \<and> (case snd (snd r) of
                  None \<Rightarrow> False
                | Some g \<Rightarrow>
                    g_session_id g = session_id
                    \<and> stop_events (fst (snd r)) session_id = Some (g_stop_event g)
                    \<and> \<not> event_flags (fst (snd r)) (g_stop_event g)
                    \<and> \<not> event_flags (ui (start_generation g env (fst (snd r))))
                          (g_stop_event g))"
proof -
  let ?u1 = "handle_stop_generation (Some session_id) rid u"
  have u1: "?u1 = emit (Generation_stop_error no_active_generation rid) u"
    using idle sid by (simp add: handle_stop_generation_def)
  have r1: "agent_ready ?u1" "sfc_agent ?u1 \<noteq> None"
    using ready by (simp_all add: u1 emit_simps)
  show ?thesis
    using r1 msg sid calm
    by (auto simp: u1 [symmetric] Let_def handle_message_def resolve_session_def emit_simps
        start_generation_unstopped)
qed

text \<open>
  C3 as stated fails: a stop request with no generation in flight, then the message
  \<open>hi\<close>, to which the agent answers \<open>ok\<close>. The turn is not cancelled: the transcript
  gains the assistant message \<open>ok\<close>, and the only trace of the stop request is its
  rejection.
\<close>

theorem stop_before_generation_counterexample:
  "stop_events ready_ui (ascii ''s1'') = None
   \<and> map_option (\<lambda>r. conversations (snd r) (ascii ''s1''))
       (message_turn plain_lower (Some (ascii ''s1'')) (ascii ''r1'') (ascii ''uu'')
          (ascii ''t1'') (ascii ''t2'') (ascii ''hi'') answer_env
          (handle_stop_generation (Some (ascii ''s1'')) (ascii ''r1'') ready_ui))
     = Some (Some [\<lparr>role = User, content = ascii ''hi'', timestamp = ascii ''t1''\<rparr>,
                   \<lparr>role = Assistant, content = ascii ''ok'', timestamp = ascii ''t7''\<rparr>])
   \<and> map_option (\<lambda>r. client_log (snd r))
       (message_turn plain_lower (Some (ascii ''s1'')) (ascii ''r1'') (ascii ''uu'')
          (ascii ''t1'') (ascii ''t2'') (ascii ''hi'') answer_env
          (handle_stop_generation (Some (ascii ''s1'')) (ascii ''r1'') ready_ui))
     = Some [Generation_stop_error no_active_generation (ascii ''r1''),
             Message_received \<lparr>role = User, content = ascii ''hi'', timestamp = ascii ''t1''\<rparr>
               (ascii ''r1''),
             Agent_typing True (ascii ''r1''),
             Agent_streaming_start (ascii ''s1'') (ascii ''r1''),
             Agent_streaming_end (ascii ''r1''),
             Agent_typing False (ascii ''r1'')]"
  by code_simp

theorem stop_without_generation_is_rejected_witness:
  "stop_events ready_ui (ascii ''s1'') = None
   \<and> handle_stop_generation (Some (ascii ''s1'')) (ascii ''r1'') ready_ui
       = emit (Generation_stop_error no_active_generation (ascii ''r1'')) ready_ui
   \<and> (case snd (snd (handle_message plain_lower (Some (ascii ''s1'')) (ascii ''r1'')
                        (ascii ''uu'') (ascii ''t1'') (ascii ''t2'') (ascii ''hi'')
                        (handle_stop_generation (Some (ascii ''s1'')) (ascii ''r1'') ready_ui))) of
         None \<Rightarrow> False
       | Some g \<Rightarrow>
           \<not> event_flags
               (ui (start_generation g idle_env
                      (fst (snd (handle_message plain_lower (Some (ascii ''s1'')) (ascii ''r1'')
                         (ascii ''uu'') (ascii ''t1'') (ascii ''t2'') (ascii ''hi'')
                         (handle_stop_generation (Some (ascii ''s1'')) (ascii ''r1'')
                            ready_ui))))))
               (g_stop_event g))"
proof -
  have h1: "stop_events ready_ui (ascii ''s1'') = None"
    by (simp add: ready_ui_simps)
  have h3: "agent_ready ready_ui" and h4: "sfc_agent ready_ui \<noteq> None"
    by (simp_all add: ready_ui_simps)
  have h5: "py_strip (ascii ''hi'') \<noteq> []"
    unfolding strip_hi by (simp add: ascii_simps)
  have h6: "py_lower plain_lower (py_strip (ascii ''hi''))
              \<notin> set [ascii ''exit'', ascii ''quit'', ascii ''bye'']"
    unfolding strip_hi lower_hi by (simp add: ascii_simps)
  have h7: "unstopped (e_before_start idle_env)"
    by (simp add: idle_env_def unstopped_def)
  let ?u1 = "handle_stop_generation (Some (ascii ''s1'')) (ascii ''r1'') ready_ui"
  let ?r = "handle_message plain_lower (Some (ascii ''s1'')) (ascii ''r1'') (ascii ''uu'')
              (ascii ''t1'') (ascii ''t2'') (ascii ''hi'') ?u1"
  note t = stop_without_generation_is_rejected [OF h1 s1_nonempty h3 h4 h5 h6 h7,
      of "ascii ''r1''" "ascii ''r1''" "ascii ''uu''" "ascii ''t1''" "ascii ''t2''",
      unfolded Let_def]
  have a: "?u1 = emit (Generation_stop_error no_active_generation (ascii ''r1'')) ready_ui"
    by (rule conjunct1 [OF t])
  have b: "case snd (snd ?r) of
             None \<Rightarrow> False
           | Some g \<Rightarrow>
               \<not> event_flags (ui (start_generation g idle_env (fst (snd ?r)))) (g_stop_event g)"
    using conjunct2 [OF t] by (cases "snd (snd ?r)") simp_all
  from h1 a b show ?thesis
    by (intro conjI)
qed

section \<open>The transcript of a turn\<close>











text \<open>
  C7 at a failing input: the message \<open>hi\<close>, and an agent call that raises
  \<open>Exception("boom")\<close> while the stop event is not set. \<open>run_in_thread\<close> catches the
  exception and \<open>run_with_timeout\<close> returns the text \<open>Error: boom\<close> as if it were the
  response. No exception leaves \<open>process_agent_response\<close> and the transcript gains the
  assistant message \<open>Error: boom\<close>, but the client is sent neither an
  \<open>agent_response\<close> nor any other event that carries the error text.
\<close>

theorem agent_error_turn:
  "map_option (\<lambda>r. (fst r, conversations (snd r) (ascii ''s1''), client_log (snd r)))
       (message_turn plain_lower (Some (ascii ''s1'')) (ascii ''r1'') (ascii ''uu'')
          (ascii ''t1'') (ascii ''t2'') (ascii ''hi'') error_env ready_ui)
     = Some (None,
             Some [\<lparr>role = User, content = ascii ''hi'', timestamp = ascii ''t1''\<rparr>,
                   \<lparr>role = Assistant, content = ascii ''Error: boom'',
                    timestamp = ascii ''t7''\<rparr>],
             [Message_received \<lparr>role = User, content = ascii ''hi'', timestamp = ascii ''t1''\<rparr>
               (ascii ''r1''),
              Agent_typing True (ascii ''r1''),
              Agent_streaming_start (ascii ''s1'') (ascii ''r1''),
              Agent_streaming_end (ascii ''r1''),
              Agent_typing False (ascii ''r1'')])"
  by code_simp

end
